theory Spec2Isabelle
  imports Complex_Main "HOL-Library.Multiset"
begin

section \<open>Bowldem: daily puzzle, scoring, statistics and leaderboard\<close>

text \<open>
  A shallow embedding of the game logic of the Bowldem Discord activity:
  \<^verbatim>\<open>src/utils/dailyPuzzle.js\<close>, the two hooks \<^verbatim>\<open>useLeaderboard\<close> and
  \<^verbatim>\<open>useDailyPuzzle\<close>, \<^verbatim>\<open>generateNewFeedback\<close> of the application component and
  \<^verbatim>\<open>generateLocalArchive\<close> of the archive dialogue.

  Conventions of the model.
  \<^item> A calendar date string \<^verbatim>\<open>'YYYY-MM-DD'\<close> is represented by its day number, the
    number of days since 1970-01-01, so that \<^verbatim>\<open>new Date(s + 'T00:00:00Z').getTime()\<close>
    is the day number times the milliseconds of a day. Equality of date strings is
    equality of day numbers.
  \<^item> An instant (\<^verbatim>\<open>new Date()\<close>) is its number of milliseconds since 1970-01-01T00:00Z.
  \<^item> The local time zone is a parameter: the offset of local time from UTC in force at
    an instant, and the offset the engine takes for a local time. \<^verbatim>\<open>Date.setDate\<close> works
    on local time, \<^verbatim>\<open>toISOString\<close> prints UTC.
  \<^item> \<^verbatim>\<open>localStorage\<close> is an explicit store that is passed and returned; reads and
    writes of it succeed (the \<^verbatim>\<open>catch\<close> branches that only log are not modelled), and
    what it holds is well typed.
  \<^item> \<^verbatim>\<open>undefined\<close>, \<^verbatim>\<open>null\<close> and \<^verbatim>\<open>NaN\<close> are the value \<open>None\<close> of an option type.
\<close>

subsection \<open>Constants of \<^verbatim>\<open>dailyPuzzle.js\<close>\<close>

type_synonym date = int

type_synonym instant = int

definition EPOCH_DATE :: date where
  \<comment> \<open>\<^verbatim>\<open>'2026-01-15'\<close>, day 20468 after 1970-01-01\<close>
  "EPOCH_DATE = 20468"

definition MAX_GUESSES :: nat where
  "MAX_GUESSES = 5"

definition MS_PER_DAY :: int where
  \<comment> \<open>\<^verbatim>\<open>1000 * 60 * 60 * 24\<close>\<close>
  "MS_PER_DAY = 1000 * 60 * 60 * 24"

subsection \<open>Local time: \<^verbatim>\<open>setDate\<close> and \<^verbatim>\<open>toISOString\<close>\<close>

text \<open>
  ECMAScript has \<open>LocalTime(t) = t + LocalTZA(t, true)\<close> for an instant \<open>t\<close> and
  \<open>UTC(l) = l - LocalTZA(l, false)\<close> for a local time \<open>l\<close>; both offsets are in
  milliseconds. A time zone is the pair of these two functions.
\<close>

record time_zone =
  LocalTZA_utc :: "instant \<Rightarrow> int"
  LocalTZA_local :: "int \<Rightarrow> int"

definition setDate_by :: "time_zone \<Rightarrow> int \<Rightarrow> instant \<Rightarrow> instant" where
  \<comment> \<open>\<^verbatim>\<open>d.setDate(d.getDate() + k)\<close>: the local time of \<open>d\<close> with its day moved by \<open>k\<close>
      and its time of day kept, read back as an instant\<close>
  "setDate_by tz k t =
     (let local = t + LocalTZA_utc tz t;
          moved = local + k * MS_PER_DAY
      in moved - LocalTZA_local tz moved)"

definition toISODate :: "instant \<Rightarrow> date" where
  \<comment> \<open>\<^verbatim>\<open>d.toISOString().split('T')[0]\<close>: the UTC date of an instant\<close>
  "toISODate t = t div MS_PER_DAY"

definition fixed_offset :: "time_zone \<Rightarrow> int \<Rightarrow> bool" where
  \<comment> \<open>a time zone whose clocks never change\<close>
  "fixed_offset tz c = (\<forall>t. LocalTZA_utc tz t = c \<and> LocalTZA_local tz t = c)"


definition utc_zone :: time_zone where
  "utc_zone = \<lparr> LocalTZA_utc = (\<lambda>t. 0), LocalTZA_local = (\<lambda>l. 0) \<rparr>"

definition new_york_2026 :: time_zone where
  \<comment> \<open>America/New_York as it is during 2026: UTC-5, and UTC-4 from 2026-03-08T07:00Z
      to 2026-11-01T06:00Z. A local time that the change skips or repeats is read with
      the offset before the change, so local times from 2026-03-08 03:00 up to
      2026-11-01 02:00 are read with UTC-4.\<close>
  "new_york_2026 =
     \<lparr> LocalTZA_utc =
         (\<lambda>t. if 1772953200000 \<le> t \<and> t < 1793512800000 then - 14400000 else - 18000000),
       LocalTZA_local =
         (\<lambda>l. if 1772938800000 \<le> l \<and> l < 1793498400000 then - 14400000 else - 18000000) \<rparr>"

subsection \<open>Date utilities and puzzle selection\<close>

definition getPuzzleNumber :: "date \<Rightarrow> nat" where
  "getPuzzleNumber dateStr =
     (let date = dateStr * MS_PER_DAY;
          epoch = EPOCH_DATE * MS_PER_DAY;
          diffTime = date - epoch;
          diffDays = diffTime div MS_PER_DAY
      in nat (max 0 diffDays))"

definition getPuzzleIndex :: "nat \<Rightarrow> nat \<Rightarrow> nat option" where
  \<comment> \<open>\<^verbatim>\<open>puzzleNumber % totalPuzzles\<close>; the remainder by zero is \<^verbatim>\<open>NaN\<close>\<close>
  "getPuzzleIndex puzzleNumber totalPuzzles =
     (if totalPuzzles = 0 then None else Some (puzzleNumber mod totalPuzzles))"

record match_data =
  playersInMatch :: "string list option"
  targetPlayerTeam :: string
  targetPlayerRole :: string

record puzzle =
  puzzle_id :: nat
  targetPlayer :: string
  matchData :: match_data

record puzzle_data =
  pd_puzzle :: "puzzle option"
  pd_puzzleNumber :: nat
  pd_puzzleIndex :: "nat option"

text \<open>
  The error taxonomy of the specification. No function of the sources raises any of
  them; the result type of the selection makes the absence of the error a statement.
\<close>

datatype error = CatalogEmpty

definition js_index :: "'a list \<Rightarrow> nat option \<Rightarrow> 'a option" where
  \<comment> \<open>\<^verbatim>\<open>xs[i]\<close>: \<^verbatim>\<open>undefined\<close> out of range and at \<^verbatim>\<open>NaN\<close>\<close>
  "js_index xs i =
     (case i of None \<Rightarrow> None
      | Some k \<Rightarrow> if k < length xs then Some (xs ! k) else None)"

definition getPuzzleForToday :: "date \<Rightarrow> puzzle list \<Rightarrow> error + puzzle_data" where
  \<comment> \<open>the first argument is \<^verbatim>\<open>getEffectiveDate()\<close>, the default of \<^verbatim>\<open>getPuzzleNumber\<close>\<close>
  "getPuzzleForToday today puzzles =
     (let puzzleNumber = getPuzzleNumber today;
          puzzleIndex = getPuzzleIndex puzzleNumber (length puzzles)
      in Inr \<lparr> pd_puzzle = js_index puzzles puzzleIndex,
               pd_puzzleNumber = puzzleNumber,
               pd_puzzleIndex = puzzleIndex \<rparr>)"

subsection \<open>Scoring: \<^verbatim>\<open>generateNewFeedback\<close>\<close>

record player =
  player_id :: string
  fullName :: string
  player_country :: string
  player_role :: string

text \<open>
  The fields \<open>playerName\<close>, \<open>country\<close> and \<open>role\<close> of a feedback record are \<open>None\<close> where
  the code reads \<^verbatim>\<open>undefined\<close>.
\<close>

record feedback =
  playerName :: "string option"
  country :: "string option"
  role :: "string option"
  playedInGame :: bool
  sameTeam :: bool
  sameRole :: bool
  isMVP :: bool

definition playersLookup :: "player list \<Rightarrow> (string \<rightharpoonup> player)" where
  \<comment> \<open>\<^verbatim>\<open>players.forEach(player => { map[player.id] = player })\<close>: a later player replaces
      an earlier one of the same id\<close>
  "playersLookup players = fold (\<lambda>p m. m(player_id p \<mapsto> p)) players Map.empty"

text \<open>
  The lookup object is a plain object, so a read of it also finds what it inherits: the
  properties of \<^verbatim>\<open>Object.prototype\<close>, all truthy, and, when a player has the id
  \<^verbatim>\<open>__proto__\<close> (the assignment then makes that player the prototype of the object, and
  a read of \<^verbatim>\<open>__proto__\<close> gives that player), the non-empty fields of that player. What is
  found this way is no player: its \<^verbatim>\<open>fullName\<close>, \<^verbatim>\<open>country\<close> and \<^verbatim>\<open>role\<close> are
  \<^verbatim>\<open>undefined\<close>. A player of the catalog has the four fields the code reads.
\<close>

definition object_prototype_keys :: "string list" where
  "object_prototype_keys =
     [''constructor'', ''__defineGetter__'', ''__defineSetter__'', ''hasOwnProperty'',
      ''__lookupGetter__'', ''__lookupSetter__'', ''isPrototypeOf'',
      ''propertyIsEnumerable'', ''toString'', ''valueOf'', ''__proto__'',
      ''toLocaleString'']"

definition inherited_key :: "player list \<Rightarrow> string \<Rightarrow> bool" where
  "inherited_key players k =
     (k \<in> set object_prototype_keys
      \<or> (case playersLookup players ''__proto__'' of
            None \<Rightarrow> False
          | Some p \<Rightarrow> (k = ''id'' \<and> player_id p \<noteq> [])
                     \<or> (k = ''fullName'' \<and> fullName p \<noteq> [])
                     \<or> (k = ''country'' \<and> player_country p \<noteq> [])
                     \<or> (k = ''role'' \<and> player_role p \<noteq> [])))"

datatype lookup_result = Catalog_player player | Inherited_member

definition findPlayer :: "player list \<Rightarrow> string \<Rightarrow> lookup_result option" where
  \<comment> \<open>\<^verbatim>\<open>playersLookup[playerId] || null\<close>\<close>
  "findPlayer players playerId =
     (case playersLookup players playerId of
        Some p \<Rightarrow> Some (Catalog_player p)
      | None \<Rightarrow> if inherited_key players playerId then Some Inherited_member else None)"

fun found_fullName :: "lookup_result \<Rightarrow> string option" where
  "found_fullName (Catalog_player p) = Some (fullName p)"
| "found_fullName Inherited_member = None"

fun found_country :: "lookup_result \<Rightarrow> string option" where
  "found_country (Catalog_player p) = Some (player_country p)"
| "found_country Inherited_member = None"

fun found_role :: "lookup_result \<Rightarrow> string option" where
  "found_role (Catalog_player p) = Some (player_role p)"
| "found_role Inherited_member = None"

definition js_or :: "'a option \<Rightarrow> 'a option \<Rightarrow> 'a option" where
  \<comment> \<open>\<^verbatim>\<open>a || b\<close> on objects, which are truthy when present\<close>
  "js_or a b = (case a of Some x \<Rightarrow> Some x | None \<Rightarrow> b)"

definition or_empty :: "'a list option \<Rightarrow> 'a list" where
  \<comment> \<open>\<^verbatim>\<open>xs || []\<close>\<close>
  "or_empty xs = (case xs of Some ys \<Rightarrow> ys | None \<Rightarrow> [])"

definition generateNewFeedback ::
  "player list \<Rightarrow> puzzle option \<Rightarrow> string \<Rightarrow> puzzle option \<Rightarrow> feedback option" where
  \<comment> \<open>arguments: the catalog, \<^verbatim>\<open>currentPuzzle\<close>, the guessed key, \<^verbatim>\<open>puzzleToUse\<close>\<close>
  "generateNewFeedback players currentPuzzle guessedPlayerKey puzzleToUse =
     (case (findPlayer players guessedPlayerKey, js_or puzzleToUse currentPuzzle) of
        (Some guessedPlayer, Some pz) \<Rightarrow>
          (let md = matchData pz;
               inMatch = or_empty (playersInMatch md)
           in Some \<lparr> playerName = found_fullName guessedPlayer,
                      country = found_country guessedPlayer,
                      role = found_role guessedPlayer,
                      playedInGame = (guessedPlayerKey \<in> set inMatch),
                      sameTeam = (found_country guessedPlayer = Some (targetPlayerTeam md)),
                      sameRole = (found_role guessedPlayer = Some (targetPlayerRole md)),
                      isMVP = (guessedPlayerKey = targetPlayer pz) \<rparr>)
      | _ \<Rightarrow> None)"

subsection \<open>Game state and statistics in \<^verbatim>\<open>localStorage\<close>\<close>

datatype game_status = Not_started | In_progress | Won | Lost

record game_state =
  lastPlayedDate :: "date option"
  lastPuzzleNumber :: "nat option"
  guesses :: "string list"
  gameStatus :: game_status
  modalShown :: bool

text \<open>
  A slot of \<open>guessDistribution\<close> is \<open>None\<close> where the array has a hole or \<^verbatim>\<open>null\<close>
  (a hole becomes \<^verbatim>\<open>null\<close> when the statistics are written as JSON).
\<close>

record stats =
  gamesPlayed :: nat
  gamesWon :: nat
  currentStreak :: nat
  maxStreak :: nat
  guessDistribution :: "nat option list"
  lastWinDate :: "date option"

record storage =
  STATE :: "game_state option"
  STATS :: "stats option"

definition getDefaultGameState :: game_state where
  "getDefaultGameState =
     \<lparr> lastPlayedDate = None, lastPuzzleNumber = None, guesses = [],
       gameStatus = Not_started, modalShown = False \<rparr>"

definition loadGameState :: "storage \<Rightarrow> game_state" where
  "loadGameState st = (case STATE st of Some s \<Rightarrow> s | None \<Rightarrow> getDefaultGameState)"

definition saveGameState :: "game_state \<Rightarrow> storage \<Rightarrow> storage" where
  "saveGameState s st = st\<lparr>STATE := Some s\<rparr>"

definition getDefaultStats :: stats where
  "getDefaultStats =
     \<lparr> gamesPlayed = 0, gamesWon = 0, currentStreak = 0, maxStreak = 0,
       guessDistribution = [Some 0, Some 0, Some 0, Some 0, Some 0],
       lastWinDate = None \<rparr>"

definition loadStats :: "storage \<Rightarrow> stats" where
  "loadStats st = (case STATS st of Some s \<Rightarrow> s | None \<Rightarrow> getDefaultStats)"

definition saveStats :: "stats \<Rightarrow> storage \<Rightarrow> storage" where
  "saveStats s st = st\<lparr>STATS := Some s\<rparr>"

definition recordGuess :: "string \<Rightarrow> storage \<Rightarrow> game_state \<times> storage" where
  \<comment> \<open>\<^verbatim>\<open>recordGuess\<close> of \<^verbatim>\<open>dailyPuzzle.js\<close>\<close>
  "recordGuess playerKey st =
     (let state = loadGameState st
      in if gameStatus state \<noteq> In_progress then (state, st)
         else (let state' = state\<lparr>guesses := guesses state @ [playerKey]\<rparr>
               in (state', saveGameState state' st)))"

definition slot :: "nat option list \<Rightarrow> nat \<Rightarrow> nat option" where
  \<comment> \<open>\<^verbatim>\<open>arr[i]\<close> for an index \<open>i \<ge> 0\<close>\<close>
  "slot d i = (if i < length d then d ! i else None)"

definition or0 :: "nat option \<Rightarrow> nat" where
  \<comment> \<open>\<^verbatim>\<open>x || 0\<close>\<close>
  "or0 x = (case x of Some n \<Rightarrow> n | None \<Rightarrow> 0)"

definition bump_distribution :: "nat option list \<Rightarrow> nat \<Rightarrow> nat option list" where
  \<comment> \<open>\<^verbatim>\<open>d[guessCount - 1] = (d[guessCount - 1] || 0) + 1\<close>. At \<open>guessCount = 0\<close> the
      index is \<open>-1\<close>, which names a property of the array object and no element; past the
      end, the array grows and the slots in between are holes.\<close>
  "bump_distribution d guessCount =
     (if guessCount = 0 then d
      else (let i = guessCount - 1;
                v = or0 (slot d i) + 1
            in if i < length d then d[i := Some v]
               else d @ replicate (i - length d) None @ [Some v]))"

definition yesterdayStr :: "time_zone \<Rightarrow> date \<Rightarrow> date" where
  \<comment> \<open>\<^verbatim>\<open>yesterday = new Date(today); yesterday.setDate(yesterday.getDate() - 1)\<close>, printed
      with \<^verbatim>\<open>toISOString\<close>; \<^verbatim>\<open>new Date('YYYY-MM-DD')\<close> is the UTC midnight of the date\<close>
  "yesterdayStr tz today = toISODate (setDate_by tz (- 1) (today * MS_PER_DAY))"

definition updateStatsOnComplete ::
  "time_zone \<Rightarrow> date \<Rightarrow> bool \<Rightarrow> nat \<Rightarrow> storage \<Rightarrow> stats \<times> storage" where
  \<comment> \<open>the arguments are the local time zone, \<^verbatim>\<open>getEffectiveDate()\<close>, and the function's own\<close>
  "updateStatsOnComplete tz today w guessCount st =
     (let s0 = loadStats st;
          s1 = s0\<lparr>gamesPlayed := gamesPlayed s0 + 1\<rparr>;
          s' =
            (if w then
               (let s2 = s1\<lparr>gamesWon := gamesWon s1 + 1\<rparr>;
                    s3 = s2\<lparr>guessDistribution :=
                              bump_distribution (guessDistribution s2) guessCount\<rparr>;
                    yesterday = yesterdayStr tz today;
                    s4 = (if lastWinDate s3 = Some yesterday
                          then s3\<lparr>currentStreak := currentStreak s3 + 1\<rparr>
                          else if lastWinDate s3 \<noteq> Some today
                          then s3\<lparr>currentStreak := 1\<rparr>
                          else s3);
                    s5 = s4\<lparr>maxStreak := max (maxStreak s4) (currentStreak s4)\<rparr>
                in s5\<lparr>lastWinDate := Some today\<rparr>)
             else s1\<lparr>currentStreak := 0\<rparr>)
      in (s', saveStats s' st))"

definition completeGame ::
  "time_zone \<Rightarrow> date \<Rightarrow> bool \<Rightarrow> storage \<Rightarrow> game_state \<times> storage" where
  "completeGame tz today w st =
     (let state = loadGameState st;
          state' = state\<lparr>gameStatus := (if w then Won else Lost)\<rparr>;
          st1 = saveGameState state' st;
          st2 = snd (updateStatsOnComplete tz today w (length (guesses state')) st1)
      in (state', st2))"

subsection \<open>The hook \<^verbatim>\<open>useDailyPuzzle\<close>\<close>

text \<open>
  The hook holds the game state as React state beside the store. Its \<^verbatim>\<open>stats\<close> state,
  which \<^verbatim>\<open>recordGuess\<close> overwrites with the value of \<^verbatim>\<open>completeGame\<close>, is display state
  and is left out.
\<close>

record daily_hook =
  gameState :: game_state
  store :: storage

record guess_result =
  newState :: game_state
  isGameOver :: bool
  res_won :: bool

definition hook_recordGuess ::
  "time_zone \<Rightarrow> date \<Rightarrow> daily_hook \<Rightarrow> string \<Rightarrow> bool
     \<Rightarrow> guess_result \<times> daily_hook" where
  \<comment> \<open>\<^verbatim>\<open>recordGuess\<close> of \<^verbatim>\<open>useDailyPuzzle\<close>; the first arguments are the local time zone and
      \<^verbatim>\<open>getEffectiveDate()\<close>\<close>
  "hook_recordGuess tz today h playerKey isCorrect =
     (let gs = gameState h;
          alreadyCompleted = (gameStatus gs = Won \<or> gameStatus gs = Lost)
      in if alreadyCompleted
         then (\<lparr> newState = gs, isGameOver = True, res_won = (gameStatus gs = Won) \<rparr>, h)
         else (let newGuesses = guesses gs @ [playerKey];
                   isLastGuess = (length newGuesses \<ge> MAX_GUESSES);
                   w = isCorrect;
                   l = (\<not> isCorrect \<and> isLastGuess);
                   over = (w \<or> l);
                   newStatus = (if w then Won else if l then Lost else In_progress);
                   ns = gs\<lparr>guesses := newGuesses, gameStatus := newStatus\<rparr>;
                   st1 = saveGameState ns (store h);
                   st2 = (if over then snd (completeGame tz today w st1) else st1)
               in (\<lparr> newState = ns, isGameOver = over, res_won = w \<rparr>,
                   \<lparr> gameState = ns, store = st2 \<rparr>)))"

subsection \<open>The hook \<^verbatim>\<open>useLeaderboard\<close>\<close>

record submission =
  discord_user_id :: string
  discord_username :: "string option"
  discord_avatar :: "string option"
  guild_id :: "string option"
  puzzle_date :: date
  puzzle_number :: nat
  guesses_used :: nat
  won :: bool

text \<open>A leaderboard row as fetched: a submission with the time the store received it.\<close>

record entry = submission +
  created_at :: instant


record leaderboard_hook =
  puzzleNumber :: nat
  puzzleDate :: "date option"
  discordUserId :: "string option"
  discordUsername :: "string option"
  guildId :: "string option"
  puzzleLeaderboard :: "entry list"
  isSubmitting :: bool
  hasSubmitted :: bool



definition Math_round :: "rat \<Rightarrow> int" where
  \<comment> \<open>\<^verbatim>\<open>Math.round\<close>: the nearest integer, a half rounded up\<close>
  "Math_round x = \<lfloor>x + 1 / 2\<rfloor>"

definition better_step :: "nat \<Rightarrow> bool \<Rightarrow> entry \<Rightarrow> nat \<Rightarrow> nat" where
  \<comment> \<open>the body of the loop of \<^verbatim>\<open>calculatePercentile\<close>\<close>
  "better_step guessesUsed w e betterCount =
     (if won e \<and> \<not> w then betterCount + 1
      else if won e \<and> w \<and> guesses_used e < guessesUsed then betterCount + 1
      else betterCount)"

definition calculatePercentile ::
  "(rat \<Rightarrow> rat) \<Rightarrow> entry list \<Rightarrow> nat \<Rightarrow> bool \<Rightarrow> int option" where
  \<comment> \<open>The first argument is the rounding of a number to the nearest double, applied
      after the division and after the multiplication; the second is the hook's
      \<^verbatim>\<open>puzzleLeaderboard\<close>. The result \<open>None\<close> is \<^verbatim>\<open>null\<close>.\<close>
  "calculatePercentile fl lb guessesUsed w =
     (if length lb = 0 then None
      else (let betterCount = fold (better_step guessesUsed w) lb 0;
                total = length lb
            in Some (Math_round
                 (fl (fl (of_int (int total - int betterCount) / of_nat total) * 100)))))"

definition compareEntries :: "entry \<Rightarrow> entry \<Rightarrow> int" where
  \<comment> \<open>the comparator given to \<^verbatim>\<open>sort\<close>\<close>
  "compareEntries a b =
     (if guesses_used a \<noteq> guesses_used b
      then int (guesses_used a) - int (guesses_used b)
      else created_at a - created_at b)"

fun insert_by :: "('a \<Rightarrow> 'a \<Rightarrow> int) \<Rightarrow> 'a \<Rightarrow> 'a list \<Rightarrow> 'a list" where
  "insert_by cmp x [] = [x]"
| "insert_by cmp x (y # ys) =
     (if cmp x y \<le> 0 then x # y # ys else y # insert_by cmp x ys)"

definition js_sort :: "('a \<Rightarrow> 'a \<Rightarrow> int) \<Rightarrow> 'a list \<Rightarrow> 'a list" where
  \<comment> \<open>\<^verbatim>\<open>Array.prototype.sort\<close> with a comparator: a stable sort, here by insertion from
      the right, so that of two elements the comparator does not separate the one
      that came first stays first\<close>
  "js_sort cmp xs = foldr (insert_by cmp) xs []"

definition getTopEntries :: "entry list \<Rightarrow> nat \<Rightarrow> entry list" where
  \<comment> \<open>\<^verbatim>\<open>filter(entry => entry.won).sort(...).slice(0, n)\<close>; the caller's default is
      \<open>n = 5\<close>\<close>
  "getTopEntries lb n = take n (js_sort compareEntries (filter won lb))"

definition modal_winners :: "entry list \<Rightarrow> entry list" where
  \<comment> \<open>the list the leaderboard dialogue renders: the same chain with \<^verbatim>\<open>slice(0, 20)\<close>\<close>
  "modal_winners lb = take 20 (js_sort compareEntries (filter won lb))"

definition rank_le :: "entry \<Rightarrow> entry \<Rightarrow> bool" where
  \<comment> \<open>the order of the ranking: fewer guesses first, at equal guesses the earlier
      submission first\<close>
  "rank_le a b =
     (guesses_used a < guesses_used b
      \<or> (guesses_used a = guesses_used b \<and> created_at a \<le> created_at b))"

subsection \<open>The local archive listing\<close>





subsection \<open>Consistency of a puzzle with the catalog\<close>

definition target_consistent :: "player list \<Rightarrow> puzzle \<Rightarrow> bool" where
  \<comment> \<open>the puzzle lists its target among the participants, and its target team and
      role are the country and role the catalog gives the target player\<close>
  "target_consistent players pz =
     (targetPlayer pz \<in> set (or_empty (playersInMatch (matchData pz)))
      \<and> (case findPlayer players (targetPlayer pz) of
            Some (Catalog_player p) \<Rightarrow>
              player_country p = targetPlayerTeam (matchData pz)
              \<and> player_role p = targetPlayerRole (matchData pz)
          | _ \<Rightarrow> False))"

subsection \<open>Sample data\<close>

definition sample_kohli :: player where
  "sample_kohli = \<lparr> player_id = ''kohli'', fullName = ''Virat Kohli'',
       player_country = ''India'', player_role = ''Batsman'' \<rparr>"

definition sample_starc :: player where
  "sample_starc = \<lparr> player_id = ''starc'', fullName = ''Mitchell Starc'',
       player_country = ''Australia'', player_role = ''Bowler'' \<rparr>"

definition sample_puzzle :: puzzle where
  "sample_puzzle = \<lparr> puzzle_id = 1, targetPlayer = ''kohli'',
       matchData = \<lparr> playersInMatch = Some [''kohli'', ''starc''],
                      targetPlayerTeam = ''India'', targetPlayerRole = ''Batsman'' \<rparr> \<rparr>"

definition stray_puzzle :: puzzle where
  \<comment> \<open>a puzzle whose match data disagree with the catalog about its target\<close>
  "stray_puzzle = \<lparr> puzzle_id = 2, targetPlayer = ''kohli'',
       matchData = \<lparr> playersInMatch = None,
                      targetPlayerTeam = ''Australia'', targetPlayerRole = ''Bowler'' \<rparr> \<rparr>"

definition four_guesses :: game_state where
  "four_guesses = \<lparr> lastPlayedDate = Some 20470, lastPuzzleNumber = Some 2,
       guesses = [''starc'', ''smith'', ''root'', ''babar''],
       gameStatus = In_progress, modalShown = False \<rparr>"

definition finished_game :: game_state where
  "finished_game = \<lparr> lastPlayedDate = Some 20470, lastPuzzleNumber = Some 2,
       guesses = [''starc'', ''kohli''], gameStatus = Won, modalShown = True \<rparr>"

definition empty_storage :: storage where
  "empty_storage = \<lparr> STATE = None, STATS = None \<rparr>"

definition sample_stats :: stats where
  "sample_stats = \<lparr> gamesPlayed = 3, gamesWon = 2, currentStreak = 2, maxStreak = 2,
       guessDistribution = [Some 1, Some 1, Some 0, Some 0, Some 0],
       lastWinDate = Some 20468 \<rparr>"

definition stats_won_nov1 :: stats where
  \<comment> \<open>statistics after a win on 2026-11-01, the second day of a streak\<close>
  "stats_won_nov1 = \<lparr> gamesPlayed = 3, gamesWon = 2, currentStreak = 2, maxStreak = 2,
       guessDistribution = [Some 1, Some 1, Some 0, Some 0, Some 0],
       lastWinDate = Some 20758 \<rparr>"



definition entry_early :: entry where
  "entry_early = \<lparr> discord_user_id = ''1001'', discord_username = Some ''anna'',
       discord_avatar = None, guild_id = None, puzzle_date = 20470, puzzle_number = 2,
       guesses_used = 2, won = True, created_at = 1768644000000 \<rparr>"

definition entry_late :: entry where
  "entry_late = \<lparr> discord_user_id = ''1002'', discord_username = Some ''ben'',
       discord_avatar = None, guild_id = None, puzzle_date = 20470, puzzle_number = 2,
       guesses_used = 2, won = True, created_at = 1768644300000 \<rparr>"

definition entry_lost :: entry where
  "entry_lost = \<lparr> discord_user_id = ''1003'', discord_username = Some ''cara'',
       discord_avatar = None, guild_id = None, puzzle_date = 20470, puzzle_number = 2,
       guesses_used = 5, won = False, created_at = 1768640000000 \<rparr>"

definition entry_fast :: entry where
  "entry_fast = \<lparr> discord_user_id = ''1004'', discord_username = Some ''dev'',
       discord_avatar = None, guild_id = None, puzzle_date = 20470, puzzle_number = 2,
       guesses_used = 1, won = True, created_at = 1768650000000 \<rparr>"

subsection \<open>The percentile in the words of the specification\<close>

definition claimed_betterCount :: "entry list \<Rightarrow> nat \<Rightarrow> bool \<Rightarrow> nat" where
  \<comment> \<open>the entries that did better: the winning entries when the given result is a loss,
      the winning entries with strictly fewer guesses when it is a win\<close>
  "claimed_betterCount lb guessesUsed w =
     (if w then length (filter (\<lambda>e. won e \<and> guesses_used e < guessesUsed) lb)
      else length (filter won lb))"

definition no_rounding :: "rat \<Rightarrow> rat" where
  \<comment> \<open>the rounding to a double at the numbers that are doubles, where it changes nothing;
      used on such numbers only\<close>
  "no_rounding x = x"

subsection \<open>Auxiliary notions for the archive listing\<close>



subsection \<open>Scoring: facts\<close>

lemma playersLookup_snoc:
  "playersLookup (ps @ [p]) = (playersLookup ps)(player_id p \<mapsto> p)"
  by (simp add: playersLookup_def)

lemma playersLookup_Some:
  "playersLookup ps k = Some p \<Longrightarrow> p \<in> set ps \<and> player_id p = k"
proof (induction ps rule: rev_induct)
  case Nil
  then show ?case by (simp add: playersLookup_def)
next
  case (snoc q qs)
  then show ?case
    by (cases "player_id q = k") (auto simp: playersLookup_snoc)
qed

lemma playersLookup_present:
  "k \<in> player_id ` set ps \<Longrightarrow> \<exists>p. playersLookup ps k = Some p"
proof (induction ps rule: rev_induct)
  case Nil
  then show ?case by simp
next
  case (snoc q qs)
  then show ?case
    by (cases "player_id q = k") (auto simp: playersLookup_snoc)
qed

lemma findPlayer_catalog:
  "playersLookup ps k = Some p \<Longrightarrow> findPlayer ps k = Some (Catalog_player p)"
  by (simp add: findPlayer_def)

lemma lookup_sample:
  "findPlayer [sample_kohli, sample_starc] ''kohli'' = Some (Catalog_player sample_kohli)"
  by (simp add: findPlayer_def playersLookup_def sample_kohli_def sample_starc_def)

lemma lookup_sample_starc:
  "findPlayer [sample_kohli, sample_starc] ''starc'' = Some (Catalog_player sample_starc)"
  by (simp add: findPlayer_def playersLookup_def sample_kohli_def sample_starc_def)

lemma constructor_is_found:
  "findPlayer [sample_kohli, sample_starc] ''constructor'' = Some Inherited_member"
  by (simp add: findPlayer_def playersLookup_def inherited_key_def object_prototype_keys_def
      sample_kohli_def sample_starc_def)

text \<open>
  Claim C1. For a guessed key that is the id of a player of the catalog, and every
  puzzle, be it given as the argument \<open>puzzleToUse\<close> (whatever the current puzzle is) or,
  when no argument is given, the current puzzle, the scoring function returns a
  feedback record. The player it scores is the catalog's player of that id, and:
  \<open>playedInGame\<close> holds iff the id is in the puzzle's list of participants, \<open>sameTeam\<close> iff
  the player's country equals the target's team, \<open>sameRole\<close> iff the player's role
  equals the target's role, \<open>isMVP\<close> iff the id equals the target player; each is an
  exact equality or membership test.
\<close>

theorem generateNewFeedback_exact:
  assumes "key \<in> player_id ` set players"
    and "puzzleToUse = Some pz \<or> (puzzleToUse = None \<and> currentPuzzle = Some pz)"
  shows "\<exists>fb p. generateNewFeedback players currentPuzzle key puzzleToUse = Some fb
           \<and> findPlayer players key = Some (Catalog_player p)
           \<and> p \<in> set players \<and> player_id p = key
           \<and> playedInGame fb = (player_id p \<in> set (or_empty (playersInMatch (matchData pz))))
           \<and> sameTeam fb = (player_country p = targetPlayerTeam (matchData pz))
           \<and> sameRole fb = (player_role p = targetPlayerRole (matchData pz))
           \<and> isMVP fb = (player_id p = targetPlayer pz)"
proof -
  from assms(1) obtain p where p: "playersLookup players key = Some p"
    using playersLookup_present by blast
  then have mem: "p \<in> set players" and pid: "player_id p = key"
    using playersLookup_Some by blast+
  have f: "findPlayer players key = Some (Catalog_player p)"
    using p by (rule findPlayer_catalog)
  from assms(2) have pz: "js_or puzzleToUse currentPuzzle = Some pz"
    by (auto simp: js_or_def)
  show ?thesis
    using f mem pid pz
    by (simp add: generateNewFeedback_def Let_def)
qed

theorem generateNewFeedback_exact_witness:
  "generateNewFeedback [sample_kohli, sample_starc] (Some stray_puzzle) ''kohli''
       (Some sample_puzzle)
     = Some \<lparr> playerName = Some ''Virat Kohli'', country = Some ''India'',
              role = Some ''Batsman'',
              playedInGame = True, sameTeam = True, sameRole = True, isMVP = True \<rparr>
   \<and> generateNewFeedback [sample_kohli, sample_starc] (Some stray_puzzle) ''kohli'' None
     = Some \<lparr> playerName = Some ''Virat Kohli'', country = Some ''India'',
              role = Some ''Batsman'',
              playedInGame = False, sameTeam = False, sameRole = False, isMVP = True \<rparr>
   \<and> generateNewFeedback [sample_kohli, sample_starc] None ''starc'' (Some sample_puzzle)
     = Some \<lparr> playerName = Some ''Mitchell Starc'', country = Some ''Australia'',
              role = Some ''Bowler'',
              playedInGame = True, sameTeam = False, sameRole = False, isMVP = False \<rparr>"
proof -
  let ?ps = "[sample_kohli, sample_starc]"
  have k: "''kohli'' \<in> player_id ` set ?ps" and s: "''starc'' \<in> player_id ` set ?ps"
    by (simp_all add: sample_kohli_def sample_starc_def)
  have arg: "Some sample_puzzle = Some sample_puzzle
      \<or> (Some sample_puzzle = None \<and> Some stray_puzzle = Some sample_puzzle)"
    by simp
  have daily: "(None :: puzzle option) = Some stray_puzzle
      \<or> ((None :: puzzle option) = None \<and> Some stray_puzzle = Some stray_puzzle)"
    by simp
  have arg_only: "Some sample_puzzle = Some sample_puzzle
      \<or> (Some sample_puzzle = None \<and> (None :: puzzle option) = Some sample_puzzle)"
    by simp
  have a: "generateNewFeedback ?ps (Some stray_puzzle) ''kohli'' (Some sample_puzzle)
     = Some \<lparr> playerName = Some ''Virat Kohli'', country = Some ''India'',
              role = Some ''Batsman'',
              playedInGame = True, sameTeam = True, sameRole = True, isMVP = True \<rparr>"
    unfolding generateNewFeedback_def lookup_sample js_or_def
    by (simp add: or_empty_def sample_kohli_def sample_puzzle_def)
  have b: "generateNewFeedback ?ps (Some stray_puzzle) ''kohli'' None
     = Some \<lparr> playerName = Some ''Virat Kohli'', country = Some ''India'',
              role = Some ''Batsman'',
              playedInGame = False, sameTeam = False, sameRole = False, isMVP = True \<rparr>"
    unfolding generateNewFeedback_def lookup_sample js_or_def
    by (simp add: or_empty_def sample_kohli_def stray_puzzle_def)
  have c: "generateNewFeedback ?ps None ''starc'' (Some sample_puzzle)
     = Some \<lparr> playerName = Some ''Mitchell Starc'', country = Some ''Australia'',
              role = Some ''Bowler'',
              playedInGame = True, sameTeam = False, sameRole = False, isMVP = False \<rparr>"
    unfolding generateNewFeedback_def lookup_sample_starc js_or_def
    by (simp add: or_empty_def sample_starc_def sample_puzzle_def)
  from generateNewFeedback_exact [OF k arg] generateNewFeedback_exact [OF k daily]
    generateNewFeedback_exact [OF s arg_only] a b c
  show ?thesis by blast
qed

text \<open>
  Claim C6, as stated, fails. The four attributes are computed independently, from the
  puzzle's own match data: on a puzzle whose match data do not list the target and give
  it another team and role than the catalog, the target is marked \<open>isMVP\<close> and none of
  the other three holds.
\<close>

theorem isMVP_not_sufficient:
  "generateNewFeedback [sample_kohli, sample_starc] None ''kohli'' (Some stray_puzzle)
     = Some \<lparr> playerName = Some ''Virat Kohli'', country = Some ''India'',
              role = Some ''Batsman'',
              playedInGame = False, sameTeam = False, sameRole = False, isMVP = True \<rparr>"
  unfolding generateNewFeedback_def lookup_sample js_or_def
    by (simp add: or_empty_def sample_kohli_def stray_puzzle_def)

text \<open>
  Claim C6, amended. When the scoring function produces a feedback record for a puzzle
  that is consistent with the catalog (its target is among its participants, and its
  target team and role are the catalog's country and role of the target player), then
  \<open>isMVP\<close> in that record implies \<open>playedInGame\<close>, \<open>sameTeam\<close> and \<open>sameRole\<close>.
\<close>

theorem isMVP_implies_all:
  assumes "generateNewFeedback players currentPuzzle key puzzleToUse = Some fb"
    and "js_or puzzleToUse currentPuzzle = Some pz"
    and "target_consistent players pz"
    and "isMVP fb"
  shows "playedInGame fb \<and> sameTeam fb \<and> sameRole fb"
  using assms
  by (auto simp: generateNewFeedback_def target_consistent_def Let_def
      split: option.splits lookup_result.splits)

theorem isMVP_implies_all_witness:
  "generateNewFeedback [sample_kohli, sample_starc] (Some sample_puzzle) ''kohli'' None
     = Some \<lparr> playerName = Some ''Virat Kohli'', country = Some ''India'',
              role = Some ''Batsman'',
              playedInGame = True, sameTeam = True, sameRole = True, isMVP = True \<rparr>
   \<and> target_consistent [sample_kohli, sample_starc] sample_puzzle"
proof -
  let ?fb = "\<lparr> playerName = Some ''Virat Kohli'', country = Some ''India'',
              role = Some ''Batsman'',
              playedInGame = True, sameTeam = True, sameRole = True, isMVP = True \<rparr>"
  have g: "generateNewFeedback [sample_kohli, sample_starc] (Some sample_puzzle) ''kohli'' None
     = Some ?fb"
    unfolding generateNewFeedback_def lookup_sample js_or_def
    by (simp add: or_empty_def sample_kohli_def sample_puzzle_def)
  have j: "js_or None (Some sample_puzzle) = Some sample_puzzle"
    by (simp add: js_or_def)
  have t: "targetPlayer sample_puzzle = ''kohli''"
    by (simp add: sample_puzzle_def)
  have c: "target_consistent [sample_kohli, sample_starc] sample_puzzle"
    unfolding target_consistent_def t lookup_sample
    by (simp add: or_empty_def sample_kohli_def sample_puzzle_def)
  have m: "isMVP ?fb" by simp
  from isMVP_implies_all [OF g j c m] g c show ?thesis by simp
qed

subsection \<open>Puzzle selection: facts\<close>

lemma getPuzzleNumber_eq: "getPuzzleNumber d = nat (d - EPOCH_DATE)"
proof -
  have "d * MS_PER_DAY - EPOCH_DATE * MS_PER_DAY = (d - EPOCH_DATE) * MS_PER_DAY"
    by (simp only: left_diff_distrib)
  moreover have "MS_PER_DAY \<noteq> 0"
    by (simp add: MS_PER_DAY_def)
  ultimately have "(d * MS_PER_DAY - EPOCH_DATE * MS_PER_DAY) div MS_PER_DAY = d - EPOCH_DATE"
    by simp
  then show ?thesis
    by (simp add: getPuzzleNumber_def Let_def)
qed

lemma getPuzzleNumber_20470: "getPuzzleNumber 20470 = 2"
  by (simp add: getPuzzleNumber_eq EPOCH_DATE_def)

lemma getPuzzleNumber_20472: "getPuzzleNumber 20472 = 4"
  by (simp add: getPuzzleNumber_eq EPOCH_DATE_def)

text \<open>
  Claim C5, as stated, fails. On the empty catalog the remainder by zero is \<^verbatim>\<open>NaN\<close> and
  the array read at \<^verbatim>\<open>NaN\<close> is \<^verbatim>\<open>undefined\<close>: the selection returns normally, on
  2026-01-17 with puzzle number 2, no puzzle and no index. It raises no error.
\<close>

theorem empty_catalog_no_error:
  "getPuzzleForToday 20470 [] =
     Inr \<lparr> pd_puzzle = None, pd_puzzleNumber = 2, pd_puzzleIndex = None \<rparr>
   \<and> getPuzzleForToday 20470 [] \<noteq> Inl CatalogEmpty"
  by (simp add: getPuzzleForToday_def getPuzzleNumber_20470 getPuzzleIndex_def
      js_index_def Let_def)

text \<open>
  Claim C5, amended. Puzzle selection never fails. On a catalog of length 0 it returns a
  result with the puzzle number of the date, an undefined puzzle and the index \<^verbatim>\<open>NaN\<close>;
  on a non-empty catalog it returns the puzzle at the puzzle number modulo the length
  of the catalog.
\<close>

theorem getPuzzleForToday_total:
  "getPuzzleForToday today puzzles =
     Inr \<lparr> pd_puzzle = (if puzzles = [] then None
                         else Some (puzzles ! (getPuzzleNumber today mod length puzzles))),
           pd_puzzleNumber = getPuzzleNumber today,
           pd_puzzleIndex = (if puzzles = [] then None
                             else Some (getPuzzleNumber today mod length puzzles)) \<rparr>"
  by (simp add: getPuzzleForToday_def getPuzzleIndex_def js_index_def Let_def)

theorem getPuzzleForToday_total_witness:
  "getPuzzleForToday 20470 [] =
     Inr \<lparr> pd_puzzle = None, pd_puzzleNumber = 2, pd_puzzleIndex = None \<rparr>
   \<and> getPuzzleForToday 20472 [sample_puzzle, stray_puzzle, sample_puzzle] =
     Inr \<lparr> pd_puzzle = Some stray_puzzle, pd_puzzleNumber = 4, pd_puzzleIndex = Some 1 \<rparr>"
  using getPuzzleForToday_total [of 20470 "[]"]
    getPuzzleForToday_total [of 20472 "[sample_puzzle, stray_puzzle, sample_puzzle]"]
  by (simp add: getPuzzleNumber_20470 getPuzzleNumber_20472)

subsection \<open>The game state machine: facts\<close>

lemma loadGameState_save: "loadGameState (saveGameState s st) = s"
  by (simp add: loadGameState_def saveGameState_def)

lemma STATE_saveGameState: "STATE (saveGameState s st) = Some s"
  by (simp add: saveGameState_def)

lemma STATE_saveStats: "STATE (saveStats s st) = STATE st"
  by (simp add: saveStats_def)

text \<open>
  Claim C2. In a game state that is not terminal and holds \<open>k < MAX_GUESSES\<close> attempts,
  a guess submitted through the hook is appended to the attempts, and the new status is
  \<open>Won\<close> when the feedback of the guess marks it as the target (also when \<open>k + 1\<close> is
  \<open>MAX_GUESSES\<close>: the win is decided first), \<open>Lost\<close> when it is not the target and
  \<open>k + 1 = MAX_GUESSES\<close>, and \<open>In_progress\<close> otherwise. The state the hook returns is the
  state it keeps and the state it stores.
\<close>

theorem hook_recordGuess_transition:
  assumes "gameStatus (gameState h) \<noteq> Won" and "gameStatus (gameState h) \<noteq> Lost"
    and "length (guesses (gameState h)) < MAX_GUESSES"
  shows "guesses (newState (fst (hook_recordGuess tz today h key (isMVP fb))))
           = guesses (gameState h) @ [key]
       \<and> gameStatus (newState (fst (hook_recordGuess tz today h key (isMVP fb))))
           = (if isMVP fb then Won
              else if length (guesses (gameState h)) + 1 = MAX_GUESSES then Lost
              else In_progress)
       \<and> gameState (snd (hook_recordGuess tz today h key (isMVP fb)))
           = newState (fst (hook_recordGuess tz today h key (isMVP fb)))
       \<and> STATE (store (snd (hook_recordGuess tz today h key (isMVP fb))))
           = Some (newState (fst (hook_recordGuess tz today h key (isMVP fb))))"
proof -
  let ?k = "length (guesses (gameState h))"
  have last: "(MAX_GUESSES \<le> Suc ?k) = (?k + 1 = MAX_GUESSES)"
    using assms(3) by auto
  show ?thesis
    using assms(1,2) last
    by (simp add: hook_recordGuess_def Let_def completeGame_def updateStatsOnComplete_def
        loadGameState_save STATE_saveGameState STATE_saveStats)
qed

theorem hook_recordGuess_transition_witness:
  "gameStatus (newState (fst (hook_recordGuess utc_zone 20470
       \<lparr> gameState = four_guesses, store = empty_storage \<rparr> ''kohli'' True))) = Won
   \<and> gameStatus (newState (fst (hook_recordGuess utc_zone 20470
       \<lparr> gameState = four_guesses, store = empty_storage \<rparr> ''kohli'' False))) = Lost
   \<and> guesses (newState (fst (hook_recordGuess utc_zone 20470
       \<lparr> gameState = four_guesses, store = empty_storage \<rparr> ''kohli'' True)))
       = [''starc'', ''smith'', ''root'', ''babar'', ''kohli'']"
proof -
  let ?h = "\<lparr> gameState = four_guesses, store = empty_storage \<rparr>"
  let ?t = "\<lparr> playerName = Some ''Virat Kohli'', country = Some ''India'',
              role = Some ''Batsman'',
              playedInGame = True, sameTeam = True, sameRole = True, isMVP = True \<rparr>"
  let ?f = "\<lparr> playerName = Some ''Mitchell Starc'', country = Some ''Australia'',
              role = Some ''Bowler'',
              playedInGame = True, sameTeam = False, sameRole = False, isMVP = False \<rparr>"
  have a: "gameStatus (gameState ?h) \<noteq> Won" "gameStatus (gameState ?h) \<noteq> Lost"
    by (simp_all add: four_guesses_def)
  have b: "length (guesses (gameState ?h)) < MAX_GUESSES"
    by (simp add: four_guesses_def MAX_GUESSES_def)
  have g: "guesses (gameState ?h) = [''starc'', ''smith'', ''root'', ''babar'']"
    by (simp add: four_guesses_def)
  have k: "length (guesses (gameState ?h)) + 1 = MAX_GUESSES"
    by (simp add: four_guesses_def MAX_GUESSES_def)
  from hook_recordGuess_transition [OF a b, of utc_zone 20470 "''kohli''" ?t]
    hook_recordGuess_transition [OF a b, of utc_zone 20470 "''kohli''" ?f] g k
  show ?thesis by simp
qed

text \<open>
  Claim C3. On a game state whose status is \<open>Won\<close> or \<open>Lost\<close>, a further guess changes
  nothing. The hook returns the state it holds and stays as it is, store included; and
  \<^verbatim>\<open>recordGuess\<close> of \<^verbatim>\<open>dailyPuzzle.js\<close>, on a store that holds such a state, returns that
  state and leaves the store as it is. No attempt is appended and no field changes.
\<close>

theorem terminal_guess_noop:
  assumes "gameStatus gs = Won \<or> gameStatus gs = Lost"
  shows "hook_recordGuess tz today \<lparr> gameState = gs, store = st \<rparr> key isCorrect
           = (\<lparr> newState = gs, isGameOver = True, res_won = (gameStatus gs = Won) \<rparr>,
              \<lparr> gameState = gs, store = st \<rparr>)
       \<and> recordGuess key (st\<lparr>STATE := Some gs\<rparr>) = (gs, st\<lparr>STATE := Some gs\<rparr>)"
  using assms
  by (auto simp: hook_recordGuess_def recordGuess_def loadGameState_def Let_def)

theorem terminal_guess_noop_witness:
  "hook_recordGuess utc_zone 20470 \<lparr> gameState = finished_game, store = empty_storage \<rparr> ''root'' False
     = (\<lparr> newState = finished_game, isGameOver = True, res_won = True \<rparr>,
        \<lparr> gameState = finished_game, store = empty_storage \<rparr>)
   \<and> recordGuess ''root'' \<lparr> STATE = Some finished_game, STATS = None \<rparr>
     = (finished_game, \<lparr> STATE = Some finished_game, STATS = None \<rparr>)"
proof -
  have a: "gameStatus finished_game = Won \<or> gameStatus finished_game = Lost"
    by (simp add: finished_game_def)
  have w: "gameStatus finished_game = Won"
    by (simp add: finished_game_def)
  from terminal_guess_noop [OF a, of utc_zone 20470 empty_storage "''root''" False] w
  show ?thesis by (simp add: empty_storage_def)
qed

subsection \<open>Statistics: facts\<close>

lemma slot_bump_same:
  "0 < gc \<Longrightarrow> or0 (slot (bump_distribution d gc) (gc - 1)) = or0 (slot d (gc - 1)) + 1"
  by (auto simp: bump_distribution_def slot_def Let_def or0_def nth_append)

lemma slot_bump_other:
  "j \<noteq> gc - 1 \<Longrightarrow> slot (bump_distribution d gc) j = slot d j"
  by (auto simp: bump_distribution_def slot_def Let_def nth_append)

lemma upd_gamesPlayed:
  "gamesPlayed (fst (updateStatsOnComplete tz today w gc st)) = gamesPlayed (loadStats st) + 1"
  by (simp add: updateStatsOnComplete_def Let_def)

lemma upd_store:
  "STATS (snd (updateStatsOnComplete tz today w gc st)) = Some (fst (updateStatsOnComplete tz today w gc st))"
  "STATE (snd (updateStatsOnComplete tz today w gc st)) = STATE st"
  by (simp_all add: updateStatsOnComplete_def Let_def saveStats_def)

lemma upd_win_gamesWon:
  "gamesWon (fst (updateStatsOnComplete tz today True gc st)) = gamesWon (loadStats st) + 1"
  by (simp add: updateStatsOnComplete_def Let_def)

lemma upd_win_distribution:
  "guessDistribution (fst (updateStatsOnComplete tz today True gc st))
     = bump_distribution (guessDistribution (loadStats st)) gc"
  by (simp add: updateStatsOnComplete_def Let_def)

lemma upd_win_streak:
  "currentStreak (fst (updateStatsOnComplete tz today True gc st))
     = (if lastWinDate (loadStats st) = Some (yesterdayStr tz today)
        then currentStreak (loadStats st) + 1
        else if lastWinDate (loadStats st) \<noteq> Some today then 1
        else currentStreak (loadStats st))"
  by (simp add: updateStatsOnComplete_def Let_def)

lemma upd_win_maxStreak:
  "maxStreak (fst (updateStatsOnComplete tz today True gc st))
     = max (maxStreak (loadStats st))
           (currentStreak (fst (updateStatsOnComplete tz today True gc st)))"
  by (simp add: updateStatsOnComplete_def Let_def)

lemma upd_win_lastWinDate:
  "lastWinDate (fst (updateStatsOnComplete tz today True gc st)) = Some today"
  by (simp add: updateStatsOnComplete_def Let_def)

lemma upd_loss:
  "fst (updateStatsOnComplete tz today False gc st)
     = (loadStats st)\<lparr>gamesPlayed := gamesPlayed (loadStats st) + 1, currentStreak := 0\<rparr>"
  by (simp add: updateStatsOnComplete_def Let_def)

lemma setDate_by_fixed:
  "fixed_offset tz c \<Longrightarrow> setDate_by tz k t = t + k * MS_PER_DAY"
  by (simp add: fixed_offset_def setDate_by_def Let_def)

lemma fixed_offset_utc: "fixed_offset utc_zone 0"
  by (simp add: fixed_offset_def utc_zone_def)

lemma yesterdayStr_fixed:
  assumes "fixed_offset tz c"
  shows "yesterdayStr tz today = today - 1"
proof -
  have "today * MS_PER_DAY + - 1 * MS_PER_DAY = (today - 1) * MS_PER_DAY"
    by (simp add: algebra_simps)
  moreover have "(today - 1) * MS_PER_DAY div MS_PER_DAY = today - 1"
    by (simp add: MS_PER_DAY_def)
  ultimately show ?thesis
    by (simp add: yesterdayStr_def toISODate_def setDate_by_fixed [OF assms])
qed

lemma yesterdayStr_new_york: "yesterdayStr new_york_2026 20759 = 20757"
  by (simp add: yesterdayStr_def toISODate_def setDate_by_def new_york_2026_def
      MS_PER_DAY_def Let_def)

text \<open>
  The statistics update, field by field, for every time zone. From the statistics \<open>s\<close>
  held by the store to the statistics \<open>s'\<close> it returns and writes, it adds one to
  \<open>gamesPlayed\<close>. On a win it adds one to \<open>gamesWon\<close>, adds one to the slot
  \<open>guessCount - 1\<close> of \<open>guessDistribution\<close> (an absent slot counts as 0) and changes no
  other slot, sets \<open>currentStreak\<close> to \<open>currentStreak + 1\<close> when \<open>lastWinDate\<close> is the date
  the code computes as yesterday, otherwise to 1 when \<open>lastWinDate\<close> differs from the
  effective date, and otherwise leaves it, then sets \<open>maxStreak\<close> to the maximum of
  \<open>maxStreak\<close> and the new \<open>currentStreak\<close>, and \<open>lastWinDate\<close> to the effective date. On a
  loss it sets \<open>currentStreak\<close> to 0 and leaves \<open>gamesWon\<close>, \<open>guessDistribution\<close>,
  \<open>maxStreak\<close> and \<open>lastWinDate\<close> as they are. In a time zone whose clocks never change,
  the date computed as yesterday is the day before the effective date.
\<close>

theorem updateStatsOnComplete_fields:
  assumes "updateStatsOnComplete tz today w guessCount st = (s', st')"
    and "loadStats st = s"
  shows "gamesPlayed s' = gamesPlayed s + 1
       \<and> STATS st' = Some s' \<and> STATE st' = STATE st
       \<and> (w \<longrightarrow>
            gamesWon s' = gamesWon s + 1
          \<and> (0 < guessCount \<longrightarrow>
               or0 (slot (guessDistribution s') (guessCount - 1))
                 = or0 (slot (guessDistribution s) (guessCount - 1)) + 1)
          \<and> (\<forall>j. j \<noteq> guessCount - 1 \<longrightarrow>
               slot (guessDistribution s') j = slot (guessDistribution s) j)
          \<and> (lastWinDate s = Some (yesterdayStr tz today) \<longrightarrow>
               currentStreak s' = currentStreak s + 1)
          \<and> (lastWinDate s \<noteq> Some (yesterdayStr tz today) \<and> lastWinDate s \<noteq> Some today \<longrightarrow>
               currentStreak s' = 1)
          \<and> (lastWinDate s \<noteq> Some (yesterdayStr tz today) \<and> lastWinDate s = Some today \<longrightarrow>
               currentStreak s' = currentStreak s)
          \<and> maxStreak s' = max (maxStreak s) (currentStreak s')
          \<and> lastWinDate s' = Some today)
       \<and> (\<not> w \<longrightarrow>
            currentStreak s' = 0
          \<and> gamesWon s' = gamesWon s
          \<and> guessDistribution s' = guessDistribution s
          \<and> maxStreak s' = maxStreak s
          \<and> lastWinDate s' = lastWinDate s)
       \<and> ((\<exists>c. fixed_offset tz c) \<longrightarrow> yesterdayStr tz today = today - 1)"
proof -
  let ?u = "updateStatsOnComplete tz today w guessCount st"
  have s': "s' = fst ?u" and st': "st' = snd ?u"
    using assms(1) by simp_all
  have l: "loadStats st = s" by (fact assms(2))
  have common: "gamesPlayed s' = gamesPlayed s + 1 \<and> STATS st' = Some s' \<and> STATE st' = STATE st"
    unfolding s' st' by (simp add: upd_gamesPlayed upd_store l)
  have win: "w \<longrightarrow>
            gamesWon s' = gamesWon s + 1
          \<and> (0 < guessCount \<longrightarrow>
               or0 (slot (guessDistribution s') (guessCount - 1))
                 = or0 (slot (guessDistribution s) (guessCount - 1)) + 1)
          \<and> (\<forall>j. j \<noteq> guessCount - 1 \<longrightarrow>
               slot (guessDistribution s') j = slot (guessDistribution s) j)
          \<and> (lastWinDate s = Some (yesterdayStr tz today) \<longrightarrow>
               currentStreak s' = currentStreak s + 1)
          \<and> (lastWinDate s \<noteq> Some (yesterdayStr tz today) \<and> lastWinDate s \<noteq> Some today \<longrightarrow>
               currentStreak s' = 1)
          \<and> (lastWinDate s \<noteq> Some (yesterdayStr tz today) \<and> lastWinDate s = Some today \<longrightarrow>
               currentStreak s' = currentStreak s)
          \<and> maxStreak s' = max (maxStreak s) (currentStreak s')
          \<and> lastWinDate s' = Some today"
    unfolding s'
    using slot_bump_same [of guessCount "guessDistribution s"]
    by (simp add: upd_win_gamesWon upd_win_distribution upd_win_streak upd_win_maxStreak
        upd_win_lastWinDate l slot_bump_other)
  have loss: "\<not> w \<longrightarrow>
            currentStreak s' = 0
          \<and> gamesWon s' = gamesWon s
          \<and> guessDistribution s' = guessDistribution s
          \<and> maxStreak s' = maxStreak s
          \<and> lastWinDate s' = lastWinDate s"
    unfolding s' by (simp add: upd_loss l)
  have fixed: "(\<exists>c. fixed_offset tz c) \<longrightarrow> yesterdayStr tz today = today - 1"
    using yesterdayStr_fixed by blast
  from common win loss fixed show ?thesis by blast
qed

theorem updateStatsOnComplete_fields_witness:
  "fst (updateStatsOnComplete utc_zone 20469 True 3 \<lparr> STATE = None, STATS = Some sample_stats \<rparr>)
     = \<lparr> gamesPlayed = 4, gamesWon = 3, currentStreak = 3, maxStreak = 3,
         guessDistribution = [Some 1, Some 1, Some 1, Some 0, Some 0],
         lastWinDate = Some 20469 \<rparr>
   \<and> currentStreak (fst (updateStatsOnComplete utc_zone 20469 False 5
         \<lparr> STATE = None, STATS = Some sample_stats \<rparr>)) = 0
   \<and> yesterdayStr utc_zone 20469 = 20468"
proof -
  let ?st = "\<lparr> STATE = None, STATS = Some sample_stats \<rparr>"
  have l: "loadStats ?st = sample_stats"
    by (simp add: loadStats_def)
  have y: "yesterdayStr utc_zone 20469 = 20468"
    using yesterdayStr_fixed [OF fixed_offset_utc, of 20469] by simp
  have e: "fst (updateStatsOnComplete utc_zone 20469 True 3 ?st)
     = \<lparr> gamesPlayed = 4, gamesWon = 3, currentStreak = 3, maxStreak = 3,
         guessDistribution = [Some 1, Some 1, Some 1, Some 0, Some 0],
         lastWinDate = Some 20469 \<rparr>"
    unfolding updateStatsOnComplete_def Let_def y
    by (simp add: loadStats_def sample_stats_def bump_distribution_def slot_def or0_def)
  from updateStatsOnComplete_fields [OF prod.collapse [symmetric] l, of utc_zone 20469 False 5]
    e y
  show ?thesis by simp
qed

text \<open>
  Claim C4 fails on the code where the claim, and the code's own comment (a
  consecutive-day win extends the streak), are right. The code takes yesterday in local
  time from the UTC midnight of the effective date and prints it in UTC: in New York on
  2026-11-02, the day after the clocks went back, that gives 2026-10-31. After a win on
  2026-11-01 with a streak of 2, a win on 2026-11-02 sets the streak to 1, where the
  claim has 3.
\<close>

theorem consecutive_win_resets_streak:
  "yesterdayStr new_york_2026 20759 = 20757
   \<and> lastWinDate stats_won_nov1 = Some (20759 - 1)
   \<and> fst (updateStatsOnComplete new_york_2026 20759 True 3
            \<lparr> STATE = None, STATS = Some stats_won_nov1 \<rparr>)
     = \<lparr> gamesPlayed = 4, gamesWon = 3, currentStreak = 1, maxStreak = 2,
         guessDistribution = [Some 1, Some 1, Some 1, Some 0, Some 0],
         lastWinDate = Some 20759 \<rparr>"
proof -
  have e: "fst (updateStatsOnComplete new_york_2026 20759 True 3
            \<lparr> STATE = None, STATS = Some stats_won_nov1 \<rparr>)
     = \<lparr> gamesPlayed = 4, gamesWon = 3, currentStreak = 1, maxStreak = 2,
         guessDistribution = [Some 1, Some 1, Some 1, Some 0, Some 0],
         lastWinDate = Some 20759 \<rparr>"
    unfolding updateStatsOnComplete_def Let_def yesterdayStr_new_york
    by (simp add: loadStats_def stats_won_nov1_def bump_distribution_def slot_def or0_def)
  have l: "lastWinDate stats_won_nov1 = Some (20759 - 1)"
    by (simp add: stats_won_nov1_def)
  from yesterdayStr_new_york l e show ?thesis by blast
qed

subsection \<open>Leaderboard submission: facts\<close>



subsection \<open>Leaderboard ranking: facts\<close>

lemma compareEntries_le: "(compareEntries a b \<le> 0) = rank_le a b"
  by (auto simp: compareEntries_def rank_le_def)

lemma rank_le_total: "\<not> rank_le a b \<Longrightarrow> rank_le b a"
  by (auto simp: rank_le_def)

lemma rank_le_trans: "rank_le a b \<Longrightarrow> rank_le b c \<Longrightarrow> rank_le a c"
  by (auto simp: rank_le_def)

lemma mset_insert_by: "mset (insert_by cmp x xs) = add_mset x (mset xs)"
  by (induction xs) auto

lemma mset_js_sort: "mset (js_sort cmp xs) = mset xs"
  by (induction xs) (auto simp: js_sort_def mset_insert_by)

lemma set_insert_by: "set (insert_by cmp x xs) = insert x (set xs)"
  by (induction xs) auto

lemma sorted_insert_by:
  "sorted_wrt rank_le xs \<Longrightarrow> sorted_wrt rank_le (insert_by compareEntries x xs)"
proof (induction xs)
  case Nil
  then show ?case by simp
next
  case (Cons y ys)
  show ?case
  proof (cases "compareEntries x y \<le> 0")
    case True
    then have xy: "rank_le x y" by (simp add: compareEntries_le)
    with Cons.prems have "\<forall>z\<in>set ys. rank_le x z"
      by (auto intro: rank_le_trans)
    with True xy Cons.prems show ?thesis by simp
  next
    case False
    then have "rank_le y x"
      by (simp add: compareEntries_le rank_le_total)
    with False Cons show ?thesis
      by (auto simp: set_insert_by)
  qed
qed

lemma sorted_js_sort: "sorted_wrt rank_le (js_sort compareEntries xs)"
proof (induction xs)
  case Nil
  show ?case by (simp add: js_sort_def)
next
  case (Cons x xs)
  then show ?case
    using sorted_insert_by [of "js_sort compareEntries xs" x]
    by (simp add: js_sort_def)
qed

lemma sorted_wrt_take_drop:
  assumes "sorted_wrt P xs" and "x \<in> set (take n xs)" and "y \<in> set (drop n xs)"
  shows "P x y"
proof -
  have "sorted_wrt P (take n xs @ drop n xs)"
    using assms(1) by simp
  then show ?thesis
    using assms(2,3) unfolding sorted_wrt_append by blast
qed

lemma mset_drop_diff: "mset xs - mset (take n xs) = mset (drop n xs)"
proof -
  have "mset xs = mset (take n xs) + mset (drop n xs)"
    by (metis append_take_drop_id mset_append)
  then show ?thesis by simp
qed

text \<open>
  Claim C7, as stated, fails: the ranking ends with \<^verbatim>\<open>slice(0, n)\<close>, so it does not retain
  every winning entry. Of two winning entries, the top 1 holds only the first.
\<close>

theorem top_entries_truncated:
  "getTopEntries [entry_early, entry_late] 1 = [entry_early]
   \<and> won entry_late \<and> entry_late \<noteq> entry_early"
  by (simp add: getTopEntries_def js_sort_def compareEntries_def entry_early_def entry_late_def)

text \<open>
  Claim C7, amended. For every sequence of leaderboard entries and every limit \<open>n\<close> (5 by
  default in \<^verbatim>\<open>getTopEntries\<close>, 20 in the leaderboard dialogue), the ranking returns
  the first \<open>n\<close> of the entries with \<open>won\<close> true in ranking order: it holds only winning
  entries of the input, each at most as often as the input does, \<open>min n\<close> (number of
  winners) of them, and all of them when there are at most \<open>n\<close>; it is ordered ascending
  by \<open>guesses_used\<close> with ties broken ascending by \<open>created_at\<close>; and every winning entry
  it leaves out ranks no better than every entry it holds.
\<close>

theorem getTopEntries_top_n:
  "mset (getTopEntries lb n) \<subseteq># mset (filter won lb)
   \<and> length (getTopEntries lb n) = min n (length (filter won lb))
   \<and> (length (filter won lb) \<le> n \<longrightarrow> mset (getTopEntries lb n) = mset (filter won lb))
   \<and> (\<forall>e\<in>set (getTopEntries lb n). won e \<and> e \<in> set lb)
   \<and> sorted_wrt rank_le (getTopEntries lb n)
   \<and> (\<forall>x\<in>set (getTopEntries lb n).
        \<forall>y\<in>#(mset (filter won lb) - mset (getTopEntries lb n)). rank_le x y)
   \<and> modal_winners lb = getTopEntries lb 20"
proof -
  let ?s = "js_sort compareEntries (filter won lb)"
  have ms: "mset ?s = mset (filter won lb)"
    by (rule mset_js_sort)
  have len: "length ?s = length (filter won lb)"
    using ms by (metis size_mset)
  have sub: "mset (take n ?s) \<subseteq># mset (filter won lb)"
    by (metis ms append_take_drop_id mset_append mset_subset_eq_add_left)
  have l: "length (take n ?s) = min n (length (filter won lb))"
    by (simp add: len min.commute)
  have all: "length (filter won lb) \<le> n \<longrightarrow> mset (take n ?s) = mset (filter won lb)"
    using ms len by simp
  have mem: "\<forall>e\<in>set (take n ?s). won e \<and> e \<in> set lb"
  proof
    fix e assume "e \<in> set (take n ?s)"
    then have "e \<in> set ?s" by (rule in_set_takeD)
    then have "e \<in># mset (filter won lb)" using ms by (metis set_mset_mset)
    then show "won e \<and> e \<in> set lb" by simp
  qed
  have srt: "sorted_wrt rank_le (take n ?s)"
    using sorted_js_sort [of "filter won lb"] by (rule sorted_wrt_take)
  have rest: "\<forall>x\<in>set (take n ?s). \<forall>y\<in>#(mset (filter won lb) - mset (take n ?s)). rank_le x y"
  proof (intro ballI)
    fix x y
    assume x: "x \<in> set (take n ?s)"
      and y: "y \<in># mset (filter won lb) - mset (take n ?s)"
    from y have "y \<in> set (drop n ?s)"
      using mset_drop_diff [of ?s n] ms by (metis set_mset_mset)
    with sorted_js_sort [of "filter won lb"] x show "rank_le x y"
      by (rule sorted_wrt_take_drop)
  qed
  show ?thesis
    unfolding getTopEntries_def modal_winners_def
    using sub l all mem srt rest by blast
qed

theorem getTopEntries_top_n_witness:
  "getTopEntries [entry_late, entry_lost, entry_early, entry_fast] 5
     = [entry_fast, entry_early, entry_late]
   \<and> sorted_wrt rank_le (getTopEntries [entry_late, entry_lost, entry_early, entry_fast] 5)
   \<and> length (getTopEntries [entry_late, entry_lost, entry_early, entry_fast] 5) = 3"
proof -
  have f: "filter won [entry_late, entry_lost, entry_early, entry_fast]
     = [entry_late, entry_early, entry_fast]"
    by (simp add: entry_early_def entry_late_def entry_lost_def entry_fast_def)
  have c: "compareEntries entry_fast entry_early \<le> 0"
      "compareEntries entry_early entry_late \<le> 0"
      "\<not> compareEntries entry_late entry_fast \<le> 0"
      "\<not> compareEntries entry_late entry_early \<le> 0"
      "\<not> compareEntries entry_early entry_fast \<le> 0"
    by (simp_all add: compareEntries_def entry_early_def entry_late_def entry_fast_def)
  have e: "getTopEntries [entry_late, entry_lost, entry_early, entry_fast] 5
     = [entry_fast, entry_early, entry_late]"
    unfolding getTopEntries_def f by (simp add: js_sort_def c)
  have s: "sorted_wrt rank_le (getTopEntries [entry_late, entry_lost, entry_early, entry_fast] 5)"
    using getTopEntries_top_n [of "[entry_late, entry_lost, entry_early, entry_fast]" 5]
    by blast
  have l: "length (getTopEntries [entry_late, entry_lost, entry_early, entry_fast] 5) = 3"
    unfolding e by simp
  from e s l show ?thesis by blast
qed

subsection \<open>Percentile: facts\<close>

lemma fold_better_step:
  "fold (better_step g w) lb c = c + claimed_betterCount lb g w"
  by (induction lb arbitrary: c) (auto simp: better_step_def claimed_betterCount_def)

lemma claimed_betterCount_le: "claimed_betterCount lb g w \<le> length lb"
  by (simp add: claimed_betterCount_def)

text \<open>
  Claim C8, as stated, fails at the empty leaderboard: the percentile is not 0 there,
  the function returns \<^verbatim>\<open>null\<close>.
\<close>

theorem empty_leaderboard_null:
  "calculatePercentile no_rounding [] 3 True = None
   \<and> calculatePercentile no_rounding [] 3 True \<noteq> Some 0"
  by (simp add: calculatePercentile_def)

text \<open>
  Claim C8, amended. For every result and every list of entries, with \<open>total\<close> the
  number of entries and \<open>betterCount\<close> the number of winning entries when the given result
  is a loss, and of winning entries with strictly fewer guesses when it is a win, the
  percentile is \<^verbatim>\<open>Math.round(((total - betterCount) / total) * 100)\<close>, the quotient and the
  product each rounded to a double, when \<open>total > 0\<close>; when \<open>total = 0\<close> the function
  returns \<^verbatim>\<open>null\<close>. The count never exceeds the total. (The witness takes a board of four
  entries, where 3/4, 1/4 and their products by 100 are doubles.)
\<close>

theorem calculatePercentile_formula:
  "calculatePercentile fl lb guessesUsed w =
     (if lb = [] then None
      else Some (Math_round (fl (fl (of_int (int (length lb)
                    - int (claimed_betterCount lb guessesUsed w)) / of_nat (length lb)) * 100))))
   \<and> claimed_betterCount lb guessesUsed w \<le> length lb"
  by (simp add: calculatePercentile_def Let_def fold_better_step claimed_betterCount_le)

theorem calculatePercentile_formula_witness:
  "calculatePercentile no_rounding [entry_late, entry_lost, entry_early, entry_fast] 2 True
     = Some 75
   \<and> calculatePercentile no_rounding [entry_late, entry_lost, entry_early, entry_fast] 5 False
     = Some 25
   \<and> calculatePercentile no_rounding [] 2 True = None"
proof -
  let ?lb = "[entry_late, entry_lost, entry_early, entry_fast]"
  have b1: "claimed_betterCount ?lb 2 True = 1"
    by (simp add: claimed_betterCount_def entry_early_def entry_late_def entry_lost_def
        entry_fast_def)
  have b2: "claimed_betterCount ?lb 5 False = 3"
    by (simp add: claimed_betterCount_def entry_early_def entry_late_def entry_lost_def
        entry_fast_def)
  have r1: "Math_round (no_rounding (no_rounding (3 / 4) * 100)) = 75"
    by code_simp
  have r2: "Math_round (no_rounding (no_rounding (1 / 4) * 100)) = 25"
    by code_simp
  from calculatePercentile_formula [of no_rounding ?lb 2 True]
    calculatePercentile_formula [of no_rounding ?lb 5 False]
    calculatePercentile_formula [of no_rounding "[]" 2 True]
    b1 b2 r1 r2
  show ?thesis by simp
qed

subsection \<open>The archive listing: facts\<close>
















lemma new_york_step_repeats_date:
  "toISODate 1772928000000 = 20520
   \<and> toISODate (setDate_by new_york_2026 1 1772928000000) = 20520"
  by (simp add: toISODate_def setDate_by_def new_york_2026_def MS_PER_DAY_def Let_def)




end
